theory Spec2Isabelle
  imports Complex_Main "HOL-Library.Multiset" "HOL-Library.AList"
begin

section \<open>Audit trail (src/AuditTrail.py)\<close>

text \<open>
  The log file holds a JSON list of entries. The model keeps the parsed list as the
  state of the file; \<open>'j\<close> is the type of the JSON payloads (inputs, outputs, notes,
  with JSON null among its values). The timestamp read from the clock by
  \<open>datetime.now().isoformat()\<close> is passed in as an argument.
\<close>

record 'j log_entry =
  timestamp :: string
  agent_name :: string
  action_type :: string
  inputs :: 'j
  outputs :: 'j
  notes_field :: 'j

type_synonym 'j log_file = "'j log_entry list"

text \<open>\<open>__init__\<close>: the file is created holding \<open>[]\<close> when it does not exist.\<close>

definition audit_init :: "'j log_file option \<Rightarrow> 'j log_file" where
  "audit_init existing = (case existing of None \<Rightarrow> [] | Some data \<Rightarrow> data)"

text \<open>\<open>log_action\<close>: load the list, append the entry, write the list back.\<close>

definition log_action ::
  "string \<Rightarrow> string \<Rightarrow> string \<Rightarrow> 'j \<Rightarrow> 'j \<Rightarrow> 'j \<Rightarrow> 'j log_file \<Rightarrow> 'j log_file" where
  "log_action now a_name a_type inp outp nts data =
     data @ [\<lparr>timestamp = now, agent_name = a_name, action_type = a_type,
              inputs = inp, outputs = outp, notes_field = nts\<rparr>]"

text \<open>
  Python truth value of an optional string argument: \<open>None\<close> and the empty string are
  falsy, every other string is truthy.
\<close>

fun truthy :: "string option \<Rightarrow> bool" where
  "truthy None = False"
| "truthy (Some s) = (s \<noteq> [])"

definition query_logs :: "string option \<Rightarrow> string option \<Rightarrow> 'j log_file \<Rightarrow> 'j log_entry list" where
  "query_logs a_name a_type file =
     (let data = file;
          data = (if truthy a_name then filter (\<lambda>d. Some (agent_name d) = a_name) data else data);
          data = (if truthy a_type then filter (\<lambda>d. Some (action_type d) = a_type) data else data)
      in data)"

text \<open>A sequence of \<open>log_action\<close> calls, each with its clock reading, applied in order.\<close>

fun entry_of :: "string \<times> string \<times> string \<times> 'j \<times> 'j \<times> 'j \<Rightarrow> 'j log_entry" where
  "entry_of (now, a_name, a_type, inp, outp, nts) =
     \<lparr>timestamp = now, agent_name = a_name, action_type = a_type,
      inputs = inp, outputs = outp, notes_field = nts\<rparr>"

fun log_all :: "(string \<times> string \<times> string \<times> 'j \<times> 'j \<times> 'j) list \<Rightarrow> 'j log_file \<Rightarrow> 'j log_file" where
  "log_all [] data = data"
| "log_all ((now, a_name, a_type, inp, outp, nts) # calls) data =
     log_all calls (log_action now a_name a_type inp outp nts data)"

section \<open>Data quality validation (src/agents/data\_quality\_validation.py)\<close>

subsection \<open>The dataset\<close>

text \<open>
  A cell of a pandas column: the missing marker (\<open>None\<close>, \<open>NaN\<close>, \<open>pd.NA\<close>), a Python
  int, float, bool or str, or any other Python object, tagged with its class. Floats are
  modelled as real numbers with exact arithmetic: binary rounding error is not part of
  the model.
\<close>

datatype cell = NA | IntV int | FloatV real | BoolV bool | StrV string | ObjV nat

datatype pytype = TNone | TInt | TFloat | TBool | TStr | TObj nat

datatype dtype = DInt | DFloat | DBool | DObject | DOther

record column =
  col_name :: string
  col_dtype :: dtype
  col_cells :: "cell list"

text \<open>
  A DataFrame: the length of its index (\<open>df.shape[0]\<close>) and its columns in order
  (\<open>df.shape[1]\<close> of them). A frame may have rows and no column.
\<close>

record frame =
  frame_rows :: nat
  frame_columns :: "column list"




definition labels :: "frame \<Rightarrow> string list" where
  "labels df = map col_name (frame_columns df)"

text \<open>\<open>df.empty\<close>: true when any axis has length 0.\<close>

definition df_empty :: "frame \<Rightarrow> bool" where
  "df_empty df = (frame_rows df = 0 \<or> frame_columns df = [])"

fun isnull :: "cell \<Rightarrow> bool" where
  "isnull NA = True"
| "isnull c = False"

definition dropna :: "cell list \<Rightarrow> cell list" where
  "dropna cs = filter (\<lambda>c. \<not> isnull c) cs"

subsection \<open>Configuration and report\<close>

record config =
  missing_warn_threshold :: real
  missing_critical_threshold :: real
  outlier_iqr_multiplier :: real

definition default_config :: config where
  "default_config = \<lparr>missing_warn_threshold = 10 / 100,
                      missing_critical_threshold = 30 / 100,
                      outlier_iqr_multiplier = 15 / 10\<rparr>"

record summary =
  num_rows :: nat
  num_columns :: nat
  columns :: "string list"

record anomaly =
  anom_method :: string
  anom_count :: nat
  anom_percentage :: real

text \<open>
  Python dictionaries keep insertion order; they are association lists here, and
  \<open>d[k] = v\<close> is \<open>AList.update\<close> (replace in place, or append).
\<close>

record diagnostics =
  dataset_summary :: summary
  missing_values :: "(string \<times> real) list"
  type_issues :: "(string \<times> string) list"
  anomalies :: "(string \<times> anomaly) list"

record report = diagnostics +
  severity :: string
  blocking_issues :: "string list"

datatype error = ValueError

subsection \<open>Rounding and formatting\<close>

text \<open>\<open>round(x, 4)\<close> and the format \<open>.1f\<close>, both rounding half to even, on exact values.\<close>

definition round_half_even :: "real \<Rightarrow> int" where
  "round_half_even x =
     (let f = \<lfloor>x\<rfloor>; d = x - of_int f
      in if d < 1 / 2 then f else if 1 / 2 < d then f + 1 else if even f then f else f + 1)"

definition round4 :: "real \<Rightarrow> real" where
  "round4 x = of_int (round_half_even (x * 10000)) / 10000"

definition digit_char :: "nat \<Rightarrow> char" where
  "digit_char d = ''0123456789'' ! d"

fun show_nat :: "nat \<Rightarrow> string" where
  "show_nat n = (if n < 10 then [digit_char n] else show_nat (n div 10) @ [digit_char (n mod 10)])"

declare show_nat.simps [simp del]

definition fmt1 :: "real \<Rightarrow> string" where
  "fmt1 x =
     (let t = nat (round_half_even (\<bar>x\<bar> * 10))
      in (if x < 0 then ''-'' else []) @ show_nat (t div 10) @ ''.'' @ show_nat (t mod 10))"

subsection \<open>Checks\<close>

definition dataset_summary_of :: "frame \<Rightarrow> summary" where
  "dataset_summary_of df =
     \<lparr>num_rows = frame_rows df, num_columns = length (frame_columns df), columns = labels df\<rparr>"

text \<open>
  \<open>df[col]\<close> is a Series when the label \<open>col\<close> names one column, and a DataFrame when
  it names several; \<open>df[col].isnull().any()\<close> is then a Series, whose truth value
  \<open>if\<close> cannot take: pandas raises ValueError.
\<close>

definition label_count :: "frame \<Rightarrow> string \<Rightarrow> nat" where
  "label_count df l = length (filter (\<lambda>c. col_name c = l) (frame_columns df))"

definition isnull_mean :: "cell list \<Rightarrow> real" where
  "isnull_mean cs = real (length (filter isnull cs)) / real (length cs)"

fun missing_loop :: "frame \<Rightarrow> column list \<Rightarrow> (string \<times> real) list \<Rightarrow> error + (string \<times> real) list" where
  "missing_loop df [] acc = Inr acc"
| "missing_loop df (c # cs) acc =
     (if 1 < label_count df (col_name c) then Inl ValueError
      else if list_ex isnull (col_cells c)
      then missing_loop df cs (AList.update (col_name c) (round4 (isnull_mean (col_cells c))) acc)
      else missing_loop df cs acc)"

definition check_missing_values :: "frame \<Rightarrow> error + (string \<times> real) list" where
  "check_missing_values df = missing_loop df (frame_columns df) []"

text \<open>
  The type check. \<open>is_numeric_dtype\<close> holds of int64, float64 and bool;
  \<open>isinstance(x, (int, float, np.number))\<close> holds of ints, floats and bools (bool is a
  subclass of int); of a missing cell the lambda is false whatever its class.
\<close>

definition is_numeric_dtype :: "dtype \<Rightarrow> bool" where
  "is_numeric_dtype d = (d = DInt \<or> d = DFloat \<or> d = DBool)"

definition is_object_dtype :: "dtype \<Rightarrow> bool" where
  "is_object_dtype d = (d = DObject)"

fun is_number_instance :: "cell \<Rightarrow> bool" where
  "is_number_instance (IntV i) = True"
| "is_number_instance (FloatV x) = True"
| "is_number_instance (BoolV b) = True"
| "is_number_instance c = False"

definition non_numeric_cell :: "cell \<Rightarrow> bool" where
  "non_numeric_cell x = (\<not> is_number_instance x \<and> \<not> isnull x)"

fun py_type :: "cell \<Rightarrow> pytype" where
  "py_type NA = TNone"
| "py_type (IntV i) = TInt"
| "py_type (FloatV x) = TFloat"
| "py_type (BoolV b) = TBool"
| "py_type (StrV s) = TStr"
| "py_type (ObjV k) = TObj k"

definition nunique :: "'a list \<Rightarrow> nat" where
  "nunique xs = length (remdups xs)"

text \<open>
  \<open>pd.to_numeric\<close> is pandas' own: \<open>to_numeric_ok vs\<close> says that it returns on the
  non-missing values \<open>vs\<close> rather than raising. It is a parameter of the model. The body
  of the loop over the columns gives the message assigned to the column, if any.
\<close>

definition column_type_issue :: "(cell list \<Rightarrow> bool) \<Rightarrow> column \<Rightarrow> string option" where
  "column_type_issue to_numeric_ok c =
     (if is_numeric_dtype (col_dtype c) then
        (if 0 < length (filter non_numeric_cell (col_cells c))
         then Some ''Numeric column contains non-numeric values'' else None)
      else if is_object_dtype (col_dtype c) then
        (if to_numeric_ok (dropna (col_cells c)) then None
         else if 1 < nunique (map py_type (dropna (col_cells c)))
         then Some ''Mixed data types in column'' else None)
      else None)"

fun type_loop :: "(cell list \<Rightarrow> bool) \<Rightarrow> column list \<Rightarrow> (string \<times> string) list \<Rightarrow> (string \<times> string) list" where
  "type_loop to_numeric_ok [] issues = issues"
| "type_loop to_numeric_ok (c # cs) issues =
     (case column_type_issue to_numeric_ok c of
        None \<Rightarrow> type_loop to_numeric_ok cs issues
      | Some msg \<Rightarrow> type_loop to_numeric_ok cs (AList.update (col_name c) msg issues))"

definition check_type_consistency :: "(cell list \<Rightarrow> bool) \<Rightarrow> frame \<Rightarrow> (string \<times> string) list" where
  "check_type_consistency to_numeric_ok df = type_loop to_numeric_ok (frame_columns df) []"

text \<open>
  Outliers. \<open>select_dtypes(include=[np.number])\<close> keeps int64 and float64 columns (bool
  is not a subclass of \<open>np.number\<close>). \<open>Series.quantile\<close> interpolates linearly between
  the two order statistics around position \<open>(n - 1) * q\<close>.
\<close>

definition is_np_number :: "dtype \<Rightarrow> bool" where
  "is_np_number d = (d = DInt \<or> d = DFloat)"

fun cell_value :: "cell \<Rightarrow> real option" where
  "cell_value (IntV i) = Some (of_int i)"
| "cell_value (FloatV x) = Some x"
| "cell_value c = None"

definition numeric_values :: "cell list \<Rightarrow> real list" where
  "numeric_values cs = List.map_filter cell_value cs"

definition quantile :: "real list \<Rightarrow> real \<Rightarrow> real" where
  "quantile xs q =
     (let s = sort xs;
          pos = real (length s - 1) * q;
          lo = nat \<lfloor>pos\<rfloor>;
          hi = min (lo + 1) (length s - 1)
      in s ! lo + (s ! hi - s ! lo) * (pos - real lo))"

record iqr_stats =
  q1 :: real
  q3 :: real
  iqr :: real
  lower :: real
  upper :: real
  n_outliers :: nat

definition column_outliers :: "real \<Rightarrow> real list \<Rightarrow> iqr_stats" where
  "column_outliers k series =
     (let a = quantile series (25 / 100);
          b = quantile series (75 / 100);
          r = b - a;
          lo = a - k * r;
          up = b + k * r
      in \<lparr>q1 = a, q3 = b, iqr = r, lower = lo, upper = up,
          n_outliers = length (filter (\<lambda>v. v < lo \<or> up < v) series)\<rparr>)"

definition column_anomaly :: "real \<Rightarrow> cell list \<Rightarrow> anomaly option" where
  "column_anomaly k cs =
     (let series = numeric_values cs
      in if series = [] then None
         else let n = n_outliers (column_outliers k series)
              in if 0 < n
                 then Some \<lparr>anom_method = ''IQR'', anom_count = n,
                            anom_percentage = round4 (real n / real (length series))\<rparr>
                 else None)"

fun outlier_loop :: "real \<Rightarrow> column list \<Rightarrow> (string \<times> anomaly) list \<Rightarrow> (string \<times> anomaly) list" where
  "outlier_loop k [] outliers = outliers"
| "outlier_loop k (c # cs) outliers =
     (case column_anomaly k (col_cells c) of
        None \<Rightarrow> outlier_loop k cs outliers
      | Some a \<Rightarrow> outlier_loop k cs (AList.update (col_name c) a outliers))"

definition detect_outliers :: "config \<Rightarrow> frame \<Rightarrow> (string \<times> anomaly) list" where
  "detect_outliers cfg df =
     outlier_loop (outlier_iqr_multiplier cfg)
       (filter (\<lambda>c. is_np_number (col_dtype c)) (frame_columns df)) []"

subsection \<open>Severity\<close>

definition blocking_message :: "string \<Rightarrow> real \<Rightarrow> string" where
  "blocking_message col pct =
     ''Column '' @ [CHR 0x27] @ col @ [CHR 0x27] @ '' missing '' @ fmt1 (pct * 100) @ ''% of values''"

fun severity_loop :: "real \<Rightarrow> (string \<times> real) list \<Rightarrow> string list \<Rightarrow> string list" where
  "severity_loop crit [] blocking = blocking"
| "severity_loop crit ((col, pct) # rest) blocking =
     (if crit \<le> pct then severity_loop crit rest (blocking @ [blocking_message col pct])
      else severity_loop crit rest blocking)"

definition compute_severity :: "config \<Rightarrow> diagnostics \<Rightarrow> string \<times> string list" where
  "compute_severity cfg rep =
     (let blocking = severity_loop (missing_critical_threshold cfg) (missing_values rep) []
      in if blocking \<noteq> [] then (''HIGH'', blocking)
         else if type_issues rep \<noteq> [] \<or> anomalies rep \<noteq> [] then (''MEDIUM'', [])
         else (''LOW'', []))"

definition empty_dataset_report :: report where
  "empty_dataset_report =
     \<lparr>dataset_summary = \<lparr>num_rows = 0, num_columns = 0, columns = []\<rparr>,
      missing_values = [], type_issues = [], anomalies = [],
      severity = ''HIGH'', blocking_issues = [''Dataset is empty'']\<rparr>"

definition run :: "(cell list \<Rightarrow> bool) \<Rightarrow> config \<Rightarrow> frame \<Rightarrow> error + report" where
  "run to_numeric_ok cfg df =
     (if df_empty df then Inr empty_dataset_report
      else case check_missing_values df of
             Inl e \<Rightarrow> Inl e
           | Inr mv \<Rightarrow>
               (let rep = \<lparr>dataset_summary = dataset_summary_of df,
                           missing_values = mv,
                           type_issues = check_type_consistency to_numeric_ok df,
                           anomalies = detect_outliers cfg df\<rparr>;
                    (sev, blocking) = compute_severity cfg rep
                in Inr (diagnostics.extend rep (report.fields sev blocking))))"

subsection \<open>The stated contracts, and sample inputs\<close>

text \<open>
  The severity rule in the specification's words: the messages of the columns at or above
  the critical threshold, in the order of \<open>missing_values\<close>; HIGH with those messages when
  there is one, otherwise MEDIUM on a type issue or an anomaly, otherwise LOW.
\<close>

definition spec_blocking :: "config \<Rightarrow> (string \<times> real) list \<Rightarrow> string list" where
  "spec_blocking cfg mv =
     map (\<lambda>(col, pct). blocking_message col pct)
       (filter (\<lambda>(col, pct). missing_critical_threshold cfg \<le> pct) mv)"


text \<open>
  Two frames are row permutations of each other when they have the same columns in the
  same order, each with the same cells up to order.
\<close>

definition same_cells :: "column \<Rightarrow> column \<Rightarrow> bool" where
  "same_cells c c' =
     (col_name c = col_name c' \<and> col_dtype c = col_dtype c' \<and> mset (col_cells c) = mset (col_cells c'))"

definition row_permuted :: "frame \<Rightarrow> frame \<Rightarrow> bool" where
  "row_permuted df df' =
     (frame_rows df = frame_rows df' \<and> list_all2 same_cells (frame_columns df) (frame_columns df'))"

text \<open>
  One possible behaviour of \<open>pd.to_numeric\<close>, for concrete inputs: it returns when
  every value is a number already.
\<close>

definition numbers_only :: "cell list \<Rightarrow> bool" where
  "numbers_only vs = list_all is_number_instance vs"



definition no_rows :: frame where
  "no_rows =
     \<lparr>frame_rows = 0,
      frame_columns = [\<lparr>col_name = ''a'', col_dtype = DObject, col_cells = []\<rparr>,
                       \<lparr>col_name = ''a'', col_dtype = DFloat, col_cells = []\<rparr>]\<rparr>"

definition age_city :: frame where
  "age_city =
     \<lparr>frame_rows = 10,
      frame_columns =
        [\<lparr>col_name = ''age'', col_dtype = DFloat,
          col_cells = [FloatV 31, NA, FloatV 45, NA, FloatV 28, NA, FloatV 52, NA, FloatV 39, FloatV 40]\<rparr>,
         \<lparr>col_name = ''city'', col_dtype = DObject,
          col_cells = [StrV ''A'', StrV ''B'', StrV ''A'', StrV ''C'', StrV ''B'',
                       StrV ''A'', StrV ''C'', StrV ''B'', StrV ''A'', StrV ''C'']\<rparr>]\<rparr>"

definition mixed_frame :: frame where
  "mixed_frame =
     \<lparr>frame_rows = 4,
      frame_columns = [\<lparr>col_name = ''m'', col_dtype = DObject,
                        col_cells = [StrV ''x'', IntV 1, NA, StrV ''y'']\<rparr>,
                       \<lparr>col_name = ''n'', col_dtype = DInt,
                        col_cells = [IntV 1, IntV 2, IntV 3, IntV 4]\<rparr>]\<rparr>"

definition outlier_series :: "int list" where
  "outlier_series = [1, 2, 3, 4, 5, 6, 7, 8, 9, 1000]"

definition outlier_frame :: "string \<Rightarrow> frame" where
  "outlier_frame nm =
     \<lparr>frame_rows = 10,
      frame_columns = [\<lparr>col_name = nm, col_dtype = DInt, col_cells = map IntV outlier_series\<rparr>]\<rparr>"

definition outlier_frame_shuffled :: "string \<Rightarrow> frame" where
  "outlier_frame_shuffled nm =
     \<lparr>frame_rows = 10,
      frame_columns = [\<lparr>col_name = nm, col_dtype = DInt,
                        col_cells = rev (map IntV outlier_series)\<rparr>]\<rparr>"

definition sample_calls :: "(string \<times> string \<times> string \<times> nat \<times> nat \<times> nat) list" where
  "sample_calls =
     [(''t1'', ''X'', ''summary'', 1, 2, 0),
      (''t2'', ''DataQualityValidator'', ''validation'', 3, 4, 0),
      (''t3'', ''X'', ''validation'', 5, 6, 0),
      (''t4'', [], ''summary'', 7, 8, 0)]"


section \<open>Properties\<close>

subsection \<open>Evaluation and helper lemmas\<close>

lemmas check_defs =
  run_def df_empty_def check_missing_values_def label_count_def isnull_mean_def
  round4_def round_half_even_def check_type_consistency_def column_type_issue_def
  is_numeric_dtype_def is_object_dtype_def non_numeric_cell_def dropna_def nunique_def
  detect_outliers_def is_np_number_def column_anomaly_def numeric_values_def
  column_outliers_def quantile_def compute_severity_def blocking_message_def fmt1_def
  digit_char_def dataset_summary_of_def labels_def numbers_only_def
  diagnostics.extend_def report.fields_def Let_def

text \<open>
  The specification's example: ten rows, \<open>age\<close> missing in four of them, \<open>city\<close> text.
\<close>

lemma run_age_city:
  "run numbers_only default_config age_city =
     Inr \<lparr>dataset_summary = \<lparr>num_rows = 10, num_columns = 2, columns = [''age'', ''city'']\<rparr>,
          missing_values = [(''age'', 4 / 10)], type_issues = [], anomalies = [],
          severity = ''HIGH'',
          blocking_issues =
            [''Column '' @ [CHR 0x27] @ ''age'' @ [CHR 0x27] @ '' missing 40.0% of values'']\<rparr>"
  by (simp add: age_city_def default_config_def check_defs show_nat.simps)

lemma run_mixed_frame:
  "run numbers_only default_config mixed_frame =
     Inr \<lparr>dataset_summary = \<lparr>num_rows = 4, num_columns = 2, columns = [''m'', ''n'']\<rparr>,
          missing_values = [(''m'', 1 / 4)],
          type_issues = [(''m'', ''Mixed data types in column'')], anomalies = [],
          severity = ''MEDIUM'', blocking_issues = []\<rparr>"
  by (simp add: mixed_frame_def default_config_def check_defs)




lemma severity_loop_eq:
  "severity_loop crit mv acc =
     acc @ map (\<lambda>(col, pct). blocking_message col pct) (filter (\<lambda>(col, pct). crit \<le> pct) mv)"
  by (induction crit mv acc rule: severity_loop.induct) auto

lemma compute_severity_spec:
  "compute_severity cfg rep =
     (if spec_blocking cfg (missing_values rep) \<noteq> []
      then (''HIGH'', spec_blocking cfg (missing_values rep))
      else if type_issues rep \<noteq> [] \<or> anomalies rep \<noteq> [] then (''MEDIUM'', [])
      else (''LOW'', []))"
  by (simp add: compute_severity_def spec_blocking_def severity_loop_eq Let_def)

lemma run_nonempty:
  assumes "\<not> df_empty df" "check_missing_values df = Inr mv"
  shows "\<exists>r. run tn cfg df = Inr r \<and> missing_values r = mv
           \<and> dataset_summary r = dataset_summary_of df
           \<and> type_issues r = check_type_consistency tn df
           \<and> anomalies r = detect_outliers cfg df
           \<and> (severity r, blocking_issues r) =
               compute_severity cfg \<lparr>dataset_summary = dataset_summary_of df, missing_values = mv,
                  type_issues = check_type_consistency tn df, anomalies = detect_outliers cfg df\<rparr>"
  using assms
  by (simp add: run_def Let_def diagnostics.extend_def report.fields_def split: prod.splits)

lemma detect_outliers_cfg:
  "outlier_iqr_multiplier c1 = outlier_iqr_multiplier c2 \<Longrightarrow>
   detect_outliers c1 df = detect_outliers c2 df"
  by (simp add: detect_outliers_def)

lemma compute_severity_cfg:
  "missing_critical_threshold c1 = missing_critical_threshold c2 \<Longrightarrow>
   compute_severity c1 rep = compute_severity c2 rep"
  by (simp add: compute_severity_def)








lemma log_all_append: "log_all calls data = data @ map entry_of calls"
  by (induction calls arbitrary: data) (auto simp: log_action_def)

lemma sort_mset_cong: "mset xs = mset ys \<Longrightarrow> sort xs = sort (ys :: real list)"
  by (rule properties_for_sort) simp_all

lemma quantile_mset: "mset xs = mset ys \<Longrightarrow> quantile xs q = quantile ys q"
  by (simp add: quantile_def sort_mset_cong [of xs ys])

lemma filter_length_mset:
  "mset xs = mset ys \<Longrightarrow> length (filter P xs) = length (filter P ys)"
proof -
  assume "mset xs = mset ys"
  then have "mset (filter P xs) = mset (filter P ys)" by simp
  then show ?thesis by (rule mset_eq_length)
qed

lemma column_outliers_mset:
  "mset xs = mset ys \<Longrightarrow> column_outliers k xs = column_outliers k ys"
  using quantile_mset [of xs ys] filter_length_mset [of xs ys]
  by (simp add: column_outliers_def Let_def)

lemma numeric_values_mset:
  "mset cs = mset cs' \<Longrightarrow> mset (numeric_values cs) = mset (numeric_values cs')"
  by (simp add: numeric_values_def map_filter_def)

lemma column_anomaly_mset:
  assumes "mset cs = mset cs'"
  shows "column_anomaly k cs = column_anomaly k cs'"
proof -
  have m: "mset (numeric_values cs) = mset (numeric_values cs')"
    using assms by (rule numeric_values_mset)
  have l: "length (numeric_values cs) = length (numeric_values cs')"
    using m by (rule mset_eq_length)
  have e: "(numeric_values cs = []) = (numeric_values cs' = [])"
    using l by (metis length_0_conv)
  show ?thesis
    using column_outliers_mset [OF m] l e by (simp add: column_anomaly_def Let_def)
qed

lemma outlier_loop_permuted:
  "list_all2 same_cells cs cs' \<Longrightarrow>
   outlier_loop k (filter (\<lambda>c. is_np_number (col_dtype c)) cs) acc
     = outlier_loop k (filter (\<lambda>c. is_np_number (col_dtype c)) cs') acc"
proof (induction cs cs' arbitrary: acc rule: list_all2_induct)
  case Nil
  then show ?case by simp
next
  case (Cons c cs c' cs')
  from Cons.hyps(1) have n: "col_name c = col_name c'" and d: "col_dtype c = col_dtype c'"
    and m: "mset (col_cells c) = mset (col_cells c')"
    by (simp_all add: same_cells_def)
  have a: "column_anomaly k (col_cells c) = column_anomaly k (col_cells c')"
    using m by (rule column_anomaly_mset)
  show ?case
  proof (cases "is_np_number (col_dtype c')")
    case True
    then show ?thesis using n d a Cons.IH by (cases "column_anomaly k (col_cells c')") simp_all
  next
    case False
    then show ?thesis using d Cons.IH by simp
  qed
qed

subsection \<open>Claims\<close>




text \<open>
  C2. For every dataset with zero rows, \<open>run\<close> returns the fixed empty-dataset report,
  whatever columns the dataset declares and before any other check.
\<close>

theorem zero_rows_report:
  "frame_rows df = 0 \<Longrightarrow>
   run tn cfg df =
     Inr \<lparr>dataset_summary = \<lparr>num_rows = 0, num_columns = 0, columns = []\<rparr>,
          missing_values = [], type_issues = [], anomalies = [],
          severity = ''HIGH'', blocking_issues = [''Dataset is empty'']\<rparr>"
  by (simp add: run_def df_empty_def empty_dataset_report_def)

theorem zero_rows_report_witness:
  "frame_rows no_rows = 0 \<and> length (frame_columns no_rows) = 2
   \<and> run numbers_only default_config no_rows =
     Inr \<lparr>dataset_summary = \<lparr>num_rows = 0, num_columns = 0, columns = []\<rparr>,
          missing_values = [], type_issues = [], anomalies = [],
          severity = ''HIGH'', blocking_issues = [''Dataset is empty'']\<rparr>"
proof -
  have h: "frame_rows no_rows = 0" by (simp add: no_rows_def)
  from zero_rows_report [OF h, of numbers_only default_config] h show ?thesis
    by (simp add: no_rows_def)
qed

text \<open>
  C3. In every report returned by \<open>run\<close>, the empty-dataset report included,
  \<open>blocking_issues\<close> is non-empty exactly when the severity is HIGH; the severity is one
  of LOW, MEDIUM, HIGH; and it is a function of the other fields of the report.
\<close>

theorem severity_invariant:
  assumes "run tn cfg df = Inr r"
  shows "(blocking_issues r \<noteq> [] \<longleftrightarrow> severity r = ''HIGH'')
       \<and> severity r \<in> {''LOW'', ''MEDIUM'', ''HIGH''}
       \<and> severity r =
           (if blocking_issues r \<noteq> [] then ''HIGH''
            else if type_issues r \<noteq> [] \<or> anomalies r \<noteq> [] then ''MEDIUM'' else ''LOW'')"
proof (cases "df_empty df")
  case True
  with assms have "r = empty_dataset_report" by (simp add: run_def)
  then show ?thesis by (simp add: empty_dataset_report_def)
next
  case False
  with assms obtain mv where mv: "check_missing_values df = Inr mv"
    by (auto simp: run_def split: sum.splits)
  from run_nonempty [OF False mv, of tn cfg] assms
  have r: "type_issues r = check_type_consistency tn df" "anomalies r = detect_outliers cfg df"
    "(severity r, blocking_issues r) =
       compute_severity cfg \<lparr>dataset_summary = dataset_summary_of df, missing_values = mv,
          type_issues = check_type_consistency tn df, anomalies = detect_outliers cfg df\<rparr>"
    by auto
  from r(3) show ?thesis
    unfolding compute_severity_spec using r(1,2) by (simp split: if_splits)
qed

theorem severity_invariant_witness:
  "run numbers_only default_config mixed_frame =
     Inr \<lparr>dataset_summary = \<lparr>num_rows = 4, num_columns = 2, columns = [''m'', ''n'']\<rparr>,
          missing_values = [(''m'', 1 / 4)],
          type_issues = [(''m'', ''Mixed data types in column'')], anomalies = [],
          severity = ''MEDIUM'', blocking_issues = []\<rparr>
   \<and> ([] \<noteq> ([] :: string list) \<longleftrightarrow> ''MEDIUM'' = ''HIGH'')
   \<and> ''MEDIUM'' \<in> {''LOW'', ''MEDIUM'', ''HIGH''}"
proof -
  note h = run_mixed_frame
  from severity_invariant [OF h] h show ?thesis by simp
qed

text \<open>
  C4. For an integer column holding exactly 1, 2, 3, 4, 5, 6, 7, 8, 9, 1000, with
  multiplier 1.5: Q1 = 3.25, Q3 = 7.75, IQR = 4.5, upper bound 14.5 (lower bound -3.5),
  exactly one value, 1000, lies strictly outside the bounds, and the anomalies of the
  column are method IQR, count 1, percentage 0.1.
\<close>

theorem iqr_example:
  "column_outliers (outlier_iqr_multiplier default_config) (numeric_values (map IntV outlier_series))
     = \<lparr>q1 = 13 / 4, q3 = 31 / 4, iqr = 9 / 2, lower = - (7 / 2), upper = 29 / 2, n_outliers = 1\<rparr>
   \<and> filter (\<lambda>v. v < - (7 / 2) \<or> 29 / 2 < v) (numeric_values (map IntV outlier_series)) = [1000]
   \<and> detect_outliers default_config (outlier_frame nm)
       = [(nm, \<lparr>anom_method = ''IQR'', anom_count = 1, anom_percentage = 1 / 10\<rparr>)]
   \<and> (\<exists>r. run tn default_config (outlier_frame nm) = Inr r
          \<and> anomalies r = [(nm, \<lparr>anom_method = ''IQR'', anom_count = 1, anom_percentage = 1 / 10\<rparr>)])"
  by (simp add: outlier_frame_def outlier_series_def default_config_def map_filter_simps check_defs)

text \<open>
  C5. Outlier detection does not depend on the order of the rows: on a frame whose columns
  hold the same cells in another order, every column has the same Q1, Q3, IQR, bounds and
  outlier count, the same anomaly record (count and percentage), and \<open>detect_outliers\<close>
  returns the same dictionary. Detection neither changes the frame nor keeps state, so a
  second run on the same column is the same computation on the same input.
\<close>

theorem outliers_permutation_invariant:
  assumes "row_permuted df df'"
  shows "detect_outliers cfg df = detect_outliers cfg df'
       \<and> list_all2 (\<lambda>c c'.
             column_outliers (outlier_iqr_multiplier cfg) (numeric_values (col_cells c))
               = column_outliers (outlier_iqr_multiplier cfg) (numeric_values (col_cells c'))
             \<and> column_anomaly (outlier_iqr_multiplier cfg) (col_cells c)
               = column_anomaly (outlier_iqr_multiplier cfg) (col_cells c'))
           (frame_columns df) (frame_columns df')"
proof -
  from assms have p: "list_all2 same_cells (frame_columns df) (frame_columns df')"
    by (simp add: row_permuted_def)
  have "detect_outliers cfg df = detect_outliers cfg df'"
    unfolding detect_outliers_def by (rule outlier_loop_permuted [OF p])
  moreover have "column_outliers k (numeric_values (col_cells c))
               = column_outliers k (numeric_values (col_cells c'))
             \<and> column_anomaly k (col_cells c) = column_anomaly k (col_cells c')"
    if "same_cells c c'" for c c' k
  proof -
    from that have m: "mset (col_cells c) = mset (col_cells c')" by (simp add: same_cells_def)
    from column_outliers_mset [OF numeric_values_mset [OF m]] column_anomaly_mset [OF m]
    show ?thesis by blast
  qed
  then have "list_all2 (\<lambda>c c'.
             column_outliers (outlier_iqr_multiplier cfg) (numeric_values (col_cells c))
               = column_outliers (outlier_iqr_multiplier cfg) (numeric_values (col_cells c'))
             \<and> column_anomaly (outlier_iqr_multiplier cfg) (col_cells c)
               = column_anomaly (outlier_iqr_multiplier cfg) (col_cells c'))
           (frame_columns df) (frame_columns df')"
    using p by (rule_tac list_all2_mono) blast+
  ultimately show ?thesis by simp
qed

theorem outliers_permutation_invariant_witness:
  "row_permuted (outlier_frame ''col'') (outlier_frame_shuffled ''col'')
   \<and> frame_columns (outlier_frame ''col'') \<noteq> frame_columns (outlier_frame_shuffled ''col'')
   \<and> detect_outliers default_config (outlier_frame_shuffled ''col'')
       = detect_outliers default_config (outlier_frame ''col'')"
proof -
  have h: "row_permuted (outlier_frame ''col'') (outlier_frame_shuffled ''col'')"
    by (simp add: row_permuted_def outlier_frame_def outlier_frame_shuffled_def same_cells_def)
  have n: "frame_columns (outlier_frame ''col'') \<noteq> frame_columns (outlier_frame_shuffled ''col'')"
    by (simp add: outlier_frame_def outlier_frame_shuffled_def outlier_series_def)
  from outliers_permutation_invariant [OF h, of default_config] h n show ?thesis by simp
qed




text \<open>
  C7. Two configurations that differ only in the missing-warn threshold give the same
  result of \<open>run\<close> on every dataset.
\<close>

theorem warn_threshold_unused:
  assumes "missing_critical_threshold c1 = missing_critical_threshold c2"
    and "outlier_iqr_multiplier c1 = outlier_iqr_multiplier c2"
  shows "run tn c1 df = run tn c2 df"
  unfolding run_def detect_outliers_cfg [OF assms(2)] compute_severity_cfg [OF assms(1)]
  by (rule refl)

theorem warn_threshold_unused_witness:
  "missing_critical_threshold (default_config\<lparr>missing_warn_threshold := 9 / 10\<rparr>)
     = missing_critical_threshold default_config
   \<and> outlier_iqr_multiplier (default_config\<lparr>missing_warn_threshold := 9 / 10\<rparr>)
     = outlier_iqr_multiplier default_config
   \<and> missing_warn_threshold (default_config\<lparr>missing_warn_threshold := 9 / 10\<rparr>)
     \<noteq> missing_warn_threshold default_config
   \<and> run numbers_only (default_config\<lparr>missing_warn_threshold := 9 / 10\<rparr>) age_city
     = run numbers_only default_config age_city"
proof -
  have h: "missing_critical_threshold (default_config\<lparr>missing_warn_threshold := 9 / 10\<rparr>)
     = missing_critical_threshold default_config"
    "outlier_iqr_multiplier (default_config\<lparr>missing_warn_threshold := 9 / 10\<rparr>)
     = outlier_iqr_multiplier default_config"
    by simp_all
  from warn_threshold_unused [OF h, of numbers_only age_city] show ?thesis
    by (simp add: default_config_def)
qed

text \<open>
  C8. After any sequence of \<open>log_action\<close> calls on a fresh log, the file holds the logged
  records in insertion order, and \<open>query_logs(agent_name="X")\<close> returns exactly those
  whose agent name is \<open>X\<close>, in that order. On any log, a non-empty agent name and a
  non-empty action type each filter by exact match, both together filter by their
  conjunction, and an argument left out filters nothing.
\<close>

theorem query_by_agent_name:
  assumes "a \<noteq> []" and "t \<noteq> []"
  shows "log_all calls (audit_init None) = map entry_of calls
    \<and> query_logs (Some ''X'') None (log_all calls (audit_init None))
        = filter (\<lambda>d. agent_name d = ''X'') (map entry_of calls)
    \<and> query_logs (Some a) None (log_all calls data)
        = filter (\<lambda>d. agent_name d = a) (data @ map entry_of calls)
    \<and> query_logs None (Some t) (log_all calls data)
        = filter (\<lambda>d. action_type d = t) (data @ map entry_of calls)
    \<and> query_logs (Some a) (Some t) (log_all calls data)
        = filter (\<lambda>d. agent_name d = a \<and> action_type d = t) (data @ map entry_of calls)
    \<and> query_logs None None (log_all calls data) = data @ map entry_of calls"
  using assms by (simp add: log_all_append audit_init_def query_logs_def Let_def conj_commute)

theorem query_by_agent_name_witness:
  "''X'' \<noteq> [] \<and> ''validation'' \<noteq> []
   \<and> query_logs (Some ''X'') None (log_all sample_calls (audit_init None))
       = [entry_of (''t1'', ''X'', ''summary'', 1, 2, 0), entry_of (''t3'', ''X'', ''validation'', 5, 6, 0)]
   \<and> query_logs (Some ''X'') (Some ''validation'') (log_all sample_calls [])
       = [entry_of (''t3'', ''X'', ''validation'', 5, 6, 0)]"
proof -
  have h: "''X'' \<noteq> []" "''validation'' \<noteq> []" by simp_all
  from query_by_agent_name [OF h, of sample_calls "[]"] show ?thesis
    by (simp add: sample_calls_def audit_init_def log_action_def query_logs_def)
qed



text \<open>
  C10. An empty string given as agent name or action type filters nothing: the query
  returns what it returns without that argument, every record when both are empty, and
  not the records whose field is the empty string.
\<close>

theorem query_empty_string_unfiltered:
  "query_logs (Some []) None file = file
   \<and> query_logs None (Some []) file = file
   \<and> query_logs (Some []) (Some []) file = file
   \<and> query_logs (Some []) t file = query_logs None t file
   \<and> query_logs a (Some []) file = query_logs a None file
   \<and> query_logs (Some []) None (log_all sample_calls (audit_init None)) = map entry_of sample_calls
   \<and> filter (\<lambda>d. agent_name d = []) (map entry_of sample_calls)
        = [entry_of (''t4'', [], ''summary'', 7, 8, 0)]"
  by (simp add: query_logs_def log_all_append audit_init_def sample_calls_def)

end
